theory Spec2Isabelle
  imports Main "HOL-Library.AList"
begin

section \<open>JavaScript values\<close>

text \<open>
  The library of \<^verbatim>\<open>src/dist/robotwebtools.js\<close> (the parts \<^verbatim>\<open>ROS\<close> and
  \<^verbatim>\<open>ActionClient\<close>) moves JSON data between the application, the WebSocket and its
  event emitters. A JavaScript value is modelled by the datatype below. Numbers are
  integers (a JavaScript number is a double, which is exact on integers of absolute value
  up to \<open>2^53\<close>); an object is the list of its own properties in insertion order.
\<close>

datatype json =
    JUndefined
  | JNull
  | JBool bool
  | JNum int
  | JStr string
  | JArr "json list"
  | JObj "(string \<times> json) list"

text \<open>The exceptions the modelled code can raise.\<close>

datatype exn = TypeError | SyntaxError | InvalidStateError

text \<open>Truthiness, as tested by \<^verbatim>\<open>if (values)\<close> and \<^verbatim>\<open>a || b\<close>.\<close>

fun js_truthy :: "json \<Rightarrow> bool" where
  "js_truthy JUndefined = False"
| "js_truthy JNull = False"
| "js_truthy (JBool b) = b"
| "js_truthy (JNum i) = (i \<noteq> 0)"
| "js_truthy (JStr s) = (s \<noteq> [])"
| "js_truthy (JArr xs) = True"
| "js_truthy (JObj kvs) = True"

subsection \<open>Numbers as text\<close>

fun show_nat :: "nat \<Rightarrow> string" where
  "show_nat n =
     (if n < 10 then [char_of (48 + n)]
      else show_nat (n div 10) @ [char_of (48 + n mod 10)])"

declare show_nat.simps [simp del]

definition show_int :: "int \<Rightarrow> string" where
  "show_int i = (if i < 0 then CHR ''-'' # show_nat (nat (- i)) else show_nat (nat i))"

definition is_digit :: "char \<Rightarrow> bool" where
  "is_digit c \<longleftrightarrow> 48 \<le> (of_char c :: nat) \<and> (of_char c :: nat) \<le> 57"

definition read_nat :: "string \<Rightarrow> nat" where
  "read_nat s = foldl (\<lambda>a c. 10 * a + ((of_char c :: nat) - 48)) 0 s"

text \<open>
  An array index is the canonical decimal text of an integer below \<open>2^32 - 1\<close>; the own
  properties of an object are enumerated with the array indices first, in ascending order,
  and the other keys after them in insertion order.
\<close>

definition is_array_index :: "string \<Rightarrow> bool" where
  "is_array_index s \<longleftrightarrow>
     s \<noteq> [] \<and> list_all is_digit s \<and> (s = ''0'' \<or> hd s \<noteq> CHR ''0'') \<and>
     length s \<le> 10 \<and> int (read_nat s) < 4294967295"

definition own_props :: "(string \<times> 'a) list \<Rightarrow> (string \<times> 'a) list" where
  "own_props kvs =
     (let ps = AList.clearjunk kvs
      in sort_key (\<lambda>p. read_nat (fst p)) (filter (\<lambda>p. is_array_index (fst p)) ps)
         @ filter (\<lambda>p. \<not> is_array_index (fst p)) ps)"

subsection \<open>Conversion to text\<close>

text \<open>\<^verbatim>\<open>ToString\<close>, as applied by string concatenation and by the use of a value as a
  property key or an event name.\<close>

fun js_to_string :: "json \<Rightarrow> string"
  and js_join :: "json list \<Rightarrow> string" where
  "js_to_string JUndefined = ''undefined''"
| "js_to_string JNull = ''null''"
| "js_to_string (JBool b) = (if b then ''true'' else ''false'')"
| "js_to_string (JNum i) = show_int i"
| "js_to_string (JStr s) = s"
| "js_to_string (JArr xs) = js_join xs"
| "js_to_string (JObj kvs) = ''[object Object]''"
| "js_join [] = []"
| "js_join (x # xs) =
     (if x = JUndefined \<or> x = JNull then [] else js_to_string x)
     @ (if xs = [] then [] else CHR '','' # js_join xs)"

subsection \<open>\<^verbatim>\<open>JSON.stringify\<close>\<close>

definition hex_digit :: "nat \<Rightarrow> char" where
  "hex_digit d = (if d < 10 then char_of (48 + d) else char_of (87 + d))"

definition json_escape :: "char \<Rightarrow> string" where
  "json_escape c =
     (if c = CHR 0x22 then [CHR 0x5C, CHR 0x22]
      else if c = CHR 0x5C then [CHR 0x5C, CHR 0x5C]
      else if c = CHR 0x08 then [CHR 0x5C, CHR ''b'']
      else if c = CHR 0x09 then [CHR 0x5C, CHR ''t'']
      else if c = CHR 0x0A then [CHR 0x5C, CHR ''n'']
      else if c = CHR 0x0C then [CHR 0x5C, CHR ''f'']
      else if c = CHR 0x0D then [CHR 0x5C, CHR ''r'']
      else if (of_char c :: nat) < 32
        then [CHR 0x5C, CHR ''u'', CHR ''0'', CHR ''0'',
              hex_digit ((of_char c :: nat) div 16), hex_digit ((of_char c :: nat) mod 16)]
      else [c])"

definition json_quote :: "string \<Rightarrow> string" where
  "json_quote s = CHR 0x22 # concat (map json_escape s) @ [CHR 0x22]"

fun commas :: "string list \<Rightarrow> string" where
  "commas [] = []"
| "commas [s] = s"
| "commas (s # t # ss) = s @ CHR '','' # commas (t # ss)"

text \<open>A member whose value serialises to \<^verbatim>\<open>undefined\<close> is left out of an object.\<close>

fun render_members :: "(string \<times> string option) list \<Rightarrow> string list" where
  "render_members [] = []"
| "render_members ((k, None) # ms) = render_members ms"
| "render_members ((k, Some s) # ms) = (json_quote k @ CHR '':'' # s) # render_members ms"

fun stringify :: "json \<Rightarrow> string option"
  and stringify_elems :: "json list \<Rightarrow> string list"
  and stringify_members :: "(string \<times> json) list \<Rightarrow> (string \<times> string option) list" where
  "stringify JUndefined = None"
| "stringify JNull = Some ''null''"
| "stringify (JBool b) = Some (if b then ''true'' else ''false'')"
| "stringify (JNum i) = Some (show_int i)"
| "stringify (JStr s) = Some (json_quote s)"
| "stringify (JArr xs) = Some (CHR ''['' # commas (stringify_elems xs) @ '']'')"
| "stringify (JObj kvs) =
     Some (CHR ''{'' # commas (render_members (own_props (stringify_members kvs))) @ ''}'')"
| "stringify_elems [] = []"
| "stringify_elems (x # xs) =
     (case stringify x of None \<Rightarrow> ''null'' | Some s \<Rightarrow> s) # stringify_elems xs"
| "stringify_members [] = []"
| "stringify_members ((k, v) # kvs) = (k, stringify v) # stringify_members kvs"

text \<open>\<^verbatim>\<open>JSON.stringify(v)\<close> is a string, or \<^verbatim>\<open>undefined\<close> when \<open>v\<close> is.\<close>

definition JSON_stringify :: "json \<Rightarrow> json" where
  "JSON_stringify v = (case stringify v of None \<Rightarrow> JUndefined | Some s \<Rightarrow> JStr s)"

subsection \<open>Properties\<close>

text \<open>
  \<open>own_keys\<close> is \<^verbatim>\<open>Object.keys\<close> on a value that is not \<^verbatim>\<open>null\<close> or
  \<^verbatim>\<open>undefined\<close> (ECMAScript 2015 and later: a primitive is converted to an object
  first), \<open>get_own v k\<close> is \<^verbatim>\<open>v[k]\<close> there. Properties inherited from a prototype
  are not modelled: none of the names the library reads is one.
\<close>

fun own_keys :: "json \<Rightarrow> string list" where
  "own_keys (JObj kvs) = map fst (own_props kvs)"
| "own_keys (JArr xs) = map show_nat [0..<length xs]"
| "own_keys (JStr s) = map show_nat [0..<length s]"
| "own_keys v = []"

fun get_own :: "json \<Rightarrow> string \<Rightarrow> json" where
  "get_own (JObj kvs) k = (case map_of kvs k of None \<Rightarrow> JUndefined | Some v \<Rightarrow> v)"
| "get_own (JArr xs) k =
     (if is_array_index k \<and> read_nat k < length xs then xs ! read_nat k
      else if k = ''length'' then JNum (int (length xs)) else JUndefined)"
| "get_own (JStr s) k =
     (if is_array_index k \<and> read_nat k < length s then JStr [s ! read_nat k]
      else if k = ''length'' then JNum (int (length s)) else JUndefined)"
| "get_own v k = JUndefined"

text \<open>\<^verbatim>\<open>v.k\<close>: reading a property of \<^verbatim>\<open>null\<close> or \<^verbatim>\<open>undefined\<close> throws.\<close>

definition get_prop :: "json \<Rightarrow> string \<Rightarrow> exn + json" where
  "get_prop v k = (if v = JUndefined \<or> v = JNull then Inl TypeError else Inr (get_own v k))"

definition Object_keys :: "json \<Rightarrow> exn + string list" where
  "Object_keys v = (if v = JUndefined \<or> v = JNull then Inl TypeError else Inr (own_keys v))"

text \<open>\<^verbatim>\<open>obj[k] = v\<close> on a plain object: an existing property keeps its place.\<close>

fun set_prop :: "json \<Rightarrow> string \<Rightarrow> json \<Rightarrow> json" where
  "set_prop (JObj kvs) k v = JObj (AList.update k v kvs)"
| "set_prop obj k v = obj"

text \<open>
  The constructors \<^verbatim>\<open>ros.Message\<close>, \<^verbatim>\<open>ros.ServiceRequest\<close> and
  \<^verbatim>\<open>ros.ServiceResponse\<close> have the same body: a new object receives every own
  property of \<^verbatim>\<open>values\<close>, when \<^verbatim>\<open>values\<close> is truthy.
\<close>

definition copy_fields :: "json \<Rightarrow> json" where
  "copy_fields values =
     (if js_truthy values
      then fold (\<lambda>name obj. set_prop obj name (get_own values name)) (own_keys values) (JObj [])
      else JObj [])"

definition Message :: "json \<Rightarrow> json" where
  "Message values = copy_fields values"

definition ServiceRequest :: "json \<Rightarrow> json" where
  "ServiceRequest values = copy_fields values"

definition ServiceResponse :: "json \<Rightarrow> json" where
  "ServiceResponse values = copy_fields values"

section \<open>The state of a connection\<close>

text \<open>
  The functions the library hands to its event emitters and to \<^verbatim>\<open>setTimeout\<close> are
  closures. Each closure of the source is a constructor here, with the variables it
  captures as arguments; objects are captured by reference (an index into the store of
  the objects of their kind). A function of the application is opaque: it is known by a
  number, and calling it is recorded in the trace.
\<close>

datatype callback =
    AppCallback nat
  | ParamGetCallback callback
  | ParamSetCallback
  | ResultFieldCallback string callback
  | StatusCallback nat
  | FeedbackCallback nat
  | ResultCallback nat

datatype ros_listener =
    DeferredSend json
  | TopicRelay nat
  | ServiceListener callback
  | RosAppListener nat

datatype topic_listener = TopicLocal callback | TopicAppListener nat

datatype goal_listener =
    GoalStatusHandler nat
  | GoalResultHandler nat
  | GoalFeedbackHandler nat
  | GoalAppListener nat

datatype timer = ClientTimeout nat | GoalTimeout nat

text \<open>
  Modelled from the spec: \<^verbatim>\<open>EventEmitter2\<close> (the prototype of \<^verbatim>\<open>ROS\<close>,
  \<^verbatim>\<open>Topic\<close>, \<^verbatim>\<open>Service\<close>, \<^verbatim>\<open>Param\<close>, \<^verbatim>\<open>ActionClient\<close> and
  \<^verbatim>\<open>Goal\<close>) is not part of the source file; its methods \<^verbatim>\<open>on\<close>,
  \<^verbatim>\<open>once\<close>, \<^verbatim>\<open>emit\<close> and \<^verbatim>\<open>removeAllListeners\<close> are modelled from
  sections 4.1, 4.3 and 5 of the specification: an emitter maps a key to the ordered list
  of its listeners, \<^verbatim>\<open>emit\<close> notifies the listeners of a key in registration order,
  and a one-shot listener is removed when it is notified. An emitter is the list of its
  registrations, oldest first.
\<close>

record 'f entry =
  event :: string
  once :: bool
  handler :: 'f

definition add_listener :: "string \<Rightarrow> bool \<Rightarrow> 'f \<Rightarrow> 'f entry list \<Rightarrow> 'f entry list" where
  "add_listener k one f es = es @ [\<lparr>event = k, once = one, handler = f\<rparr>]"

definition listeners_for :: "string \<Rightarrow> 'f entry list \<Rightarrow> 'f entry list" where
  "listeners_for k es = filter (\<lambda>e. event e = k) es"

definition remove_listeners :: "string \<Rightarrow> 'f entry list \<Rightarrow> 'f entry list" where
  "remove_listeners k es = filter (\<lambda>e. event e \<noteq> k) es"

text \<open>What an observer of the program sees: the events emitted and the calls of the
  application's functions.\<close>

datatype emitter = Ros | Topic nat | Goal nat | Client nat

datatype obs = Emitted emitter string json | Called nat json

datatype ready_state = CONNECTING | OPEN | CLOSING | CLOSED

record websocket =
  url :: string
  readyState :: ready_state

record topic =
  node :: json
  name :: string
  messageType :: json
  isAdvertised :: bool
  compression :: string
  throttle_rate :: int
  topic_events :: "topic_listener entry list"

record goal =
  isFinished :: bool
  status :: json
  result :: json
  feedback :: json
  goalId :: string
  goalMessage :: json
  goal_events :: "goal_listener entry list"
  goal_client :: nat

record action_client =
  serverName :: string
  actionName :: string
  timeout :: "int option"
  goals :: "(string \<times> nat) list"
  goalTopic :: "nat option"
  cancelTopic :: "nat option"
  receivedStatus :: bool
  client_events :: "nat entry list"

text \<open>
  The state: the \<^verbatim>\<open>ROS\<close> object (its socket, its counter and its listeners), the
  stores of the \<^verbatim>\<open>Topic\<close>, \<^verbatim>\<open>ActionClient\<close> and \<^verbatim>\<open>Goal\<close> objects made for
  it, and the host: the frames written to the socket, the images being decoded and the
  timers armed. \<open>trace\<close> and \<open>handed\<close> are history
  variables: the observations so far, and the envelopes passed to
  \<^verbatim>\<open>callOnConnection\<close> so far.
\<close>

record world =
  socket :: "websocket option"
  idCounter :: nat
  ros_events :: "ros_listener entry list"
  topics :: "topic list"
  clients :: "action_client list"
  goal_objects :: "goal list"
  wire :: "string list"
  images :: "string list"
  timers :: "(int \<times> timer) list"
  trace :: "obs list"
  handed :: "json list"

text \<open>A statement runs on the state and ends normally or by an exception; what it did to
  the state before the exception stays done.\<close>

type_synonym cmd = "world \<Rightarrow> exn option \<times> world"

fun for_each :: "('a \<Rightarrow> cmd) \<Rightarrow> 'a list \<Rightarrow> cmd" where
  "for_each f [] w = (None, w)"
| "for_each f (x # xs) w =
     (case f x w of (None, w') \<Rightarrow> for_each f xs w' | (Some e, w') \<Rightarrow> (Some e, w'))"

definition with_prop :: "json \<Rightarrow> string \<Rightarrow> (json \<Rightarrow> cmd) \<Rightarrow> cmd" where
  "with_prop v k f w = (case get_prop v k of Inl e \<Rightarrow> (Some e, w) | Inr x \<Rightarrow> f x w)"

definition observe :: "obs \<Rightarrow> world \<Rightarrow> world" where
  "observe x w = w\<lparr>trace := trace w @ [x]\<rparr>"

definition upd_topic :: "nat \<Rightarrow> (topic \<Rightarrow> topic) \<Rightarrow> world \<Rightarrow> world" where
  "upd_topic t f w = w\<lparr>topics := (topics w)[t := f (topics w ! t)]\<rparr>"

definition upd_goal :: "nat \<Rightarrow> (goal \<Rightarrow> goal) \<Rightarrow> world \<Rightarrow> world" where
  "upd_goal g f w = w\<lparr>goal_objects := (goal_objects w)[g := f (goal_objects w ! g)]\<rparr>"

definition upd_client :: "nat \<Rightarrow> (action_client \<Rightarrow> action_client) \<Rightarrow> world \<Rightarrow> world" where
  "upd_client a f w = w\<lparr>clients := (clients w)[a := f (clients w ! a)]\<rparr>"

text \<open>
  The counter \<^verbatim>\<open>ros.idCounter\<close> is a JavaScript number: \<^verbatim>\<open>ros.idCounter++\<close> adds
  one up to \<open>2^53\<close>, where the sum \<open>2^53 + 1\<close> rounds back to \<open>2^53\<close>.
\<close>

definition js_incr :: "nat \<Rightarrow> nat" where
  "js_incr n = (if int n < 9007199254740992 then n + 1 else n)"

text \<open>\<^verbatim>\<open>WebSocket.send\<close>: an exception while the socket is connecting, a frame on the
  wire when it is open, nothing when it is closing or closed.\<close>

definition socket_send :: "json \<Rightarrow> cmd" where
  "socket_send data w =
     (case socket w of
        None \<Rightarrow> (Some TypeError, w)
      | Some s \<Rightarrow>
          (case readyState s of
             CONNECTING \<Rightarrow> (Some InvalidStateError, w)
           | OPEN \<Rightarrow> (None, w\<lparr>wire := wire w @ [js_to_string data]\<rparr>)
           | CLOSING \<Rightarrow> (None, w)
           | CLOSED \<Rightarrow> (None, w)))"

subsection \<open>Emitting events\<close>

definition run_goal_listener :: "goal_listener \<Rightarrow> json \<Rightarrow> cmd" where
  "run_goal_listener f arg w =
     (case f of
        GoalStatusHandler g \<Rightarrow> (None, upd_goal g (\<lambda>x. x\<lparr>status := arg\<rparr>) w)
      | GoalResultHandler g \<Rightarrow> (None, upd_goal g (\<lambda>x. x\<lparr>isFinished := True, result := arg\<rparr>) w)
      | GoalFeedbackHandler g \<Rightarrow> (None, upd_goal g (\<lambda>x. x\<lparr>feedback := arg\<rparr>) w)
      | GoalAppListener k \<Rightarrow> (None, observe (Called k arg) w))"

definition fire_goal :: "nat \<Rightarrow> json \<Rightarrow> goal_listener entry \<Rightarrow> cmd" where
  "fire_goal g arg e w =
     run_goal_listener (handler e) arg
       (if once e then upd_goal g (\<lambda>x. x\<lparr>goal_events := remove1 e (goal_events x)\<rparr>) w else w)"

definition goal_emit :: "nat \<Rightarrow> string \<Rightarrow> json \<Rightarrow> cmd" where
  "goal_emit g k arg w =
     (if g < length (goal_objects w)
      then for_each (fire_goal g arg) (listeners_for k (goal_events (goal_objects w ! g)))
             (observe (Emitted (Goal g) k arg) w)
      else (Some TypeError, w))"



subsection \<open>The callbacks of the action client\<close>

text \<open>
  The three functions an \<^verbatim>\<open>ActionClient\<close> subscribes to its status, feedback and
  result topics. A goal is looked up in the table \<^verbatim>\<open>actionClient.goals\<close> by the
  identifier the message carries; a message for no goal of the table is ignored.
\<close>

definition find_goal :: "nat \<Rightarrow> json \<Rightarrow> world \<Rightarrow> nat option" where
  "find_goal a i w = map_of (goals (clients w ! a)) (js_to_string i)"

definition status_entry :: "nat \<Rightarrow> json \<Rightarrow> cmd" where
  "status_entry a st =
     with_prop st ''goal_id'' (\<lambda>gid.
     with_prop gid ''id'' (\<lambda>i w.
       (case find_goal a i w of
          None \<Rightarrow> (None, w)
        | Some g \<Rightarrow> goal_emit g ''status'' st w)))"

definition status_callback :: "nat \<Rightarrow> json \<Rightarrow> cmd" where
  "status_callback a statusMessage w0 =
     (if a < length (clients w0) then
        (let w = upd_client a (\<lambda>x. x\<lparr>receivedStatus := True\<rparr>) w0
         in with_prop statusMessage ''status_list'' (\<lambda>l w.
              (case l of
                 JArr xs \<Rightarrow> for_each (status_entry a) xs w
               | _ \<Rightarrow> (Some TypeError, w))) w)
      else (Some TypeError, w0))"

definition feedback_callback :: "nat \<Rightarrow> json \<Rightarrow> cmd" where
  "feedback_callback a feedbackMessage w0 =
     (if a < length (clients w0) then
        with_prop feedbackMessage ''status'' (\<lambda>st.
        with_prop st ''goal_id'' (\<lambda>gid.
        with_prop gid ''id'' (\<lambda>i w.
          (case find_goal a i w of
             None \<Rightarrow> (None, w)
           | Some g \<Rightarrow>
               (case goal_emit g ''status'' st w of
                  (Some e, w') \<Rightarrow> (Some e, w')
                | (None, w') \<Rightarrow>
                    with_prop feedbackMessage ''feedback'' (goal_emit g ''feedback'') w'))))) w0
      else (Some TypeError, w0))"

definition result_callback :: "nat \<Rightarrow> json \<Rightarrow> cmd" where
  "result_callback a resultMessage w0 =
     (if a < length (clients w0) then
        with_prop resultMessage ''status'' (\<lambda>st.
        with_prop st ''goal_id'' (\<lambda>gid.
        with_prop gid ''id'' (\<lambda>i w.
          (case find_goal a i w of
             None \<Rightarrow> (None, w)
           | Some g \<Rightarrow>
               (case goal_emit g ''status'' st w of
                  (Some e, w') \<Rightarrow> (Some e, w')
                | (None, w') \<Rightarrow>
                    with_prop resultMessage ''result'' (goal_emit g ''result'') w'))))) w0
      else (Some TypeError, w0))"

text \<open>
  Calling a callback. \<^verbatim>\<open>JSON.parse\<close> belongs to the host; it is the parameter
  \<open>P\<close> of the model, with \<open>None\<close> for a text it rejects with a
  \<^verbatim>\<open>SyntaxError\<close>.
\<close>

fun invoke :: "(string \<Rightarrow> json option) \<Rightarrow> callback \<Rightarrow> json \<Rightarrow> cmd" where
  "invoke P (AppCallback k) arg w = (None, observe (Called k arg) w)"
| "invoke P (ParamGetCallback callback) res w =
     (case get_prop res ''value'' of
        Inl e \<Rightarrow> (Some e, w)
      | Inr v \<Rightarrow>
          (case P (js_to_string v) of
             None \<Rightarrow> (Some SyntaxError, w)
           | Some val \<Rightarrow> invoke P callback val w))"
| "invoke P ParamSetCallback arg w = (None, w)"
| "invoke P (ResultFieldCallback field callback) res w =
     (case get_prop res field of
        Inl e \<Rightarrow> (Some e, w)
      | Inr v \<Rightarrow> invoke P callback v w)"
| "invoke P (StatusCallback a) arg w = status_callback a arg w"
| "invoke P (FeedbackCallback a) arg w = feedback_callback a arg w"
| "invoke P (ResultCallback a) arg w = result_callback a arg w"

subsection \<open>The emitters of a topic and of the connection\<close>

definition run_topic_listener :: "(string \<Rightarrow> json option) \<Rightarrow> topic_listener \<Rightarrow> json \<Rightarrow> cmd" where
  "run_topic_listener P f arg w =
     (case f of
        TopicLocal callback \<Rightarrow> invoke P callback arg w
      | TopicAppListener k \<Rightarrow> (None, observe (Called k arg) w))"

definition fire_topic :: "(string \<Rightarrow> json option) \<Rightarrow> nat \<Rightarrow> json \<Rightarrow> topic_listener entry \<Rightarrow> cmd" where
  "fire_topic P t arg e w =
     run_topic_listener P (handler e) arg
       (if once e then upd_topic t (\<lambda>x. x\<lparr>topic_events := remove1 e (topic_events x)\<rparr>) w else w)"

definition topic_emit :: "(string \<Rightarrow> json option) \<Rightarrow> nat \<Rightarrow> string \<Rightarrow> json \<Rightarrow> cmd" where
  "topic_emit P t k arg w =
     (if t < length (topics w)
      then for_each (fire_topic P t arg) (listeners_for k (topic_events (topics w ! t)))
             (observe (Emitted (Topic t) k arg) w)
      else (Some TypeError, w))"

definition run_ros_listener :: "(string \<Rightarrow> json option) \<Rightarrow> ros_listener \<Rightarrow> json \<Rightarrow> cmd" where
  "run_ros_listener P f arg w =
     (case f of
        DeferredSend messageJson \<Rightarrow> socket_send messageJson w
      | TopicRelay t \<Rightarrow> topic_emit P t ''message'' (Message arg) w
      | ServiceListener callback \<Rightarrow> invoke P callback (ServiceResponse arg) w
      | RosAppListener k \<Rightarrow> (None, observe (Called k arg) w))"

definition fire_ros :: "(string \<Rightarrow> json option) \<Rightarrow> json \<Rightarrow> ros_listener entry \<Rightarrow> cmd" where
  "fire_ros P arg e w =
     run_ros_listener P (handler e) arg
       (if once e then w\<lparr>ros_events := remove1 e (ros_events w)\<rparr> else w)"

definition ros_emit :: "(string \<Rightarrow> json option) \<Rightarrow> string \<Rightarrow> json \<Rightarrow> cmd" where
  "ros_emit P k arg w =
     for_each (fire_ros P arg) (listeners_for k (ros_events w)) (observe (Emitted Ros k arg) w)"

definition ros_on :: "string \<Rightarrow> ros_listener \<Rightarrow> world \<Rightarrow> world" where
  "ros_on k f w = w\<lparr>ros_events := add_listener k False f (ros_events w)\<rparr>"

definition ros_once :: "string \<Rightarrow> ros_listener \<Rightarrow> world \<Rightarrow> world" where
  "ros_once k f w = w\<lparr>ros_events := add_listener k True f (ros_events w)\<rparr>"

definition ros_removeAllListeners :: "string \<Rightarrow> world \<Rightarrow> world" where
  "ros_removeAllListeners k w = w\<lparr>ros_events := remove_listeners k (ros_events w)\<rparr>"

definition topic_on :: "nat \<Rightarrow> string \<Rightarrow> topic_listener \<Rightarrow> world \<Rightarrow> world" where
  "topic_on t k f w = upd_topic t (\<lambda>x. x\<lparr>topic_events := add_listener k False f (topic_events x)\<rparr>) w"

definition goal_on :: "nat \<Rightarrow> string \<Rightarrow> goal_listener \<Rightarrow> world \<Rightarrow> world" where
  "goal_on g k f w = upd_goal g (\<lambda>x. x\<lparr>goal_events := add_listener k False f (goal_events x)\<rparr>) w"

definition client_on :: "nat \<Rightarrow> string \<Rightarrow> nat \<Rightarrow> world \<Rightarrow> world" where
  "client_on a k f w =
     upd_client a (\<lambda>x. x\<lparr>client_events := add_listener k False f (client_events x)\<rparr>) w"

section \<open>The connection: \<^verbatim>\<open>ROS\<close>\<close>

text \<open>\<^verbatim>\<open>new ROS()\<close> without a URL: no socket, the counter at 0, no listener.\<close>

definition new_ROS :: world where
  "new_ROS =
     \<lparr>socket = None, idCounter = 0, ros_events = [], topics = [], clients = [],
      goal_objects = [], wire = [], images = [], timers = [], trace = [], handed = []\<rparr>"

definition onOpen :: "(string \<Rightarrow> json option) \<Rightarrow> json \<Rightarrow> cmd" where
  "onOpen P ev = ros_emit P ''connection'' ev"

definition onClose :: "(string \<Rightarrow> json option) \<Rightarrow> json \<Rightarrow> cmd" where
  "onClose P ev = ros_emit P ''close'' ev"

definition onError :: "(string \<Rightarrow> json option) \<Rightarrow> json \<Rightarrow> cmd" where
  "onError P ev = ros_emit P ''error'' ev"



definition handleMessage :: "(string \<Rightarrow> json option) \<Rightarrow> json \<Rightarrow> cmd" where
  "handleMessage P message =
     with_prop message ''op'' (\<lambda>op.
       if op = JStr ''publish'' then
         with_prop message ''topic'' (\<lambda>tp.
         with_prop message ''msg'' (\<lambda>msg. ros_emit P (js_to_string tp) msg))
       else if op = JStr ''service_response'' then
         with_prop message ''id'' (\<lambda>i.
         with_prop message ''values'' (\<lambda>vals. ros_emit P (js_to_string i) vals))
       else (\<lambda>w. (None, w)))"



text \<open>\<^verbatim>\<open>callOnConnection\<close>: the message is serialised, and sent now or when the
  connection opens.\<close>

definition callOnConnection :: "json \<Rightarrow> cmd" where
  "callOnConnection message w0 =
     (let w = w0\<lparr>handed := handed w0 @ [message]\<rparr>;
          messageJson = JSON_stringify message
      in case socket w of
           None \<Rightarrow> (Some TypeError, w)
         | Some s \<Rightarrow>
             if readyState s \<noteq> OPEN
             then (None, ros_once ''connection'' (DeferredSend messageJson) w)
             else socket_send messageJson w)"

definition connect :: "string \<Rightarrow> world \<Rightarrow> world" where
  "connect u w = w\<lparr>socket := Some \<lparr>url = u, readyState = CONNECTING\<rparr>\<rparr>"

definition close :: "world \<Rightarrow> world" where
  "close w =
     (case socket w of
        None \<Rightarrow> w
      | Some s \<Rightarrow>
          (if readyState s = CLOSED then w
           else w\<lparr>socket := Some (s\<lparr>readyState := CLOSING\<rparr>)\<rparr>))"

text \<open>
  The host: the socket opens or closes and calls the handler set by \<^verbatim>\<open>ros.connect\<close>.
  The result of a handler is what the host sees of it: an exception that escapes a handler
  ends that handler only, and the host reports it.
\<close>

definition socket_opens :: "(string \<Rightarrow> json option) \<Rightarrow> json \<Rightarrow> cmd" where
  "socket_opens P ev w =
     (case socket w of
        None \<Rightarrow> (None, w)
      | Some s \<Rightarrow>
          (if readyState s = CONNECTING
           then onOpen P ev (w\<lparr>socket := Some (s\<lparr>readyState := OPEN\<rparr>)\<rparr>)
           else (None, w)))"

definition socket_closes :: "(string \<Rightarrow> json option) \<Rightarrow> json \<Rightarrow> cmd" where
  "socket_closes P ev w =
     (case socket w of
        None \<Rightarrow> (None, w)
      | Some s \<Rightarrow> onClose P ev (w\<lparr>socket := Some (s\<lparr>readyState := CLOSED\<rparr>)\<rparr>))"


section \<open>Topics\<close>

text \<open>
  The options of \<^verbatim>\<open>new ros.Topic(options)\<close>: \<open>None\<close> is a key the options do not
  have. The name of a topic is a string.
\<close>

record topic_options =
  opt_node :: json
  opt_name :: string
  opt_messageType :: json
  opt_compression :: "string option"
  opt_throttle_rate :: "int option"

text \<open>The constructor. The new object has no listener yet, so the warnings it emits
  reach nobody and cannot throw.\<close>

definition new_Topic :: "(string \<Rightarrow> json option) \<Rightarrow> topic_options \<Rightarrow> world \<Rightarrow> nat \<times> world" where
  "new_Topic P options w0 =
     (let t = length (topics w0);
          c = (case opt_compression options of
                 None \<Rightarrow> ''none''
               | Some x \<Rightarrow> if x = [] then ''none'' else x);
          r = (case opt_throttle_rate options of
                 None \<Rightarrow> 0
               | Some i \<Rightarrow> if i = 0 then 0 else i);
          w1 = w0\<lparr>topics := topics w0 @
                 [\<lparr>node = opt_node options, name = opt_name options,
                   messageType = opt_messageType options, isAdvertised = False,
                   compression = c, throttle_rate = r, topic_events = []\<rparr>]\<rparr>;
          w2 = (if c \<noteq> [] \<and> c \<noteq> ''png'' \<and> c \<noteq> ''none''
                then snd (topic_emit P t ''warning''
                       (JStr (c @ '' compression is not supported. No comression will be used.'')) w1)
                else w1);
          w3 = (if r < 0
                then upd_topic t (\<lambda>x. x\<lparr>throttle_rate := 0\<rparr>)
                       (snd (topic_emit P t ''warning''
                          (JStr (show_int r @ '' is not allowed. Set to 0'')) w2))
                else w2)
      in (t, w3))"

definition subscribe :: "nat \<Rightarrow> callback \<Rightarrow> cmd" where
  "subscribe t callback w0 =
     (if t < length (topics w0) then
        (let w1 = topic_on t ''message'' (TopicLocal callback) w0;
             tp = topics w1 ! t;
             w2 = ros_on (name tp) (TopicRelay t) w1;
             w3 = w2\<lparr>idCounter := js_incr (idCounter w2)\<rparr>;
             subscribeId = ''subscribe:'' @ name tp @ '':'' @ show_nat (idCounter w3);
             call = JObj [(''op'', JStr ''subscribe''), (''id'', JStr subscribeId),
                          (''type'', messageType tp), (''topic'', JStr (name tp)),
                          (''compression'', JStr (compression tp)),
                          (''throttle_rate'', JNum (throttle_rate tp))]
         in callOnConnection call w3)
      else (Some TypeError, w0))"

definition unsubscribe :: "nat \<Rightarrow> cmd" where
  "unsubscribe t w0 =
     (if t < length (topics w0) then
        (let tp = topics w0 ! t;
             w1 = ros_removeAllListeners (name tp) w0;
             w2 = w1\<lparr>idCounter := js_incr (idCounter w1)\<rparr>;
             unsubscribeId = ''unsubscribe:'' @ name tp @ '':'' @ show_nat (idCounter w2);
             call = JObj [(''op'', JStr ''unsubscribe''), (''id'', JStr unsubscribeId),
                          (''topic'', JStr (name tp))]
         in callOnConnection call w2)
      else (Some TypeError, w0))"

definition advertise :: "nat \<Rightarrow> cmd" where
  "advertise t w0 =
     (if t < length (topics w0) then
        (let tp = topics w0 ! t;
             w1 = w0\<lparr>idCounter := js_incr (idCounter w0)\<rparr>;
             advertiseId = ''advertise:'' @ name tp @ '':'' @ show_nat (idCounter w1);
             call = JObj [(''op'', JStr ''advertise''), (''id'', JStr advertiseId),
                          (''type'', messageType tp), (''topic'', JStr (name tp))]
         in case callOnConnection call w1 of
              (Some e, w2) \<Rightarrow> (Some e, w2)
            | (None, w2) \<Rightarrow> (None, upd_topic t (\<lambda>x. x\<lparr>isAdvertised := True\<rparr>) w2))
      else (Some TypeError, w0))"

definition unadvertise :: "nat \<Rightarrow> cmd" where
  "unadvertise t w0 =
     (if t < length (topics w0) then
        (let tp = topics w0 ! t;
             w1 = w0\<lparr>idCounter := js_incr (idCounter w0)\<rparr>;
             unadvertiseId = ''unadvertise:'' @ name tp @ '':'' @ show_nat (idCounter w1);
             call = JObj [(''op'', JStr ''unadvertise''), (''id'', JStr unadvertiseId),
                          (''topic'', JStr (name tp))]
         in case callOnConnection call w1 of
              (Some e, w2) \<Rightarrow> (Some e, w2)
            | (None, w2) \<Rightarrow> (None, upd_topic t (\<lambda>x. x\<lparr>isAdvertised := False\<rparr>) w2))
      else (Some TypeError, w0))"

definition publish :: "nat \<Rightarrow> json \<Rightarrow> cmd" where
  "publish t message w0 =
     (if t < length (topics w0) then
        (case (if \<not> isAdvertised (topics w0 ! t) then advertise t w0 else (None, w0)) of
           (Some e, w1) \<Rightarrow> (Some e, w1)
         | (None, w1) \<Rightarrow>
             (let tp = topics w1 ! t;
                  w2 = w1\<lparr>idCounter := js_incr (idCounter w1)\<rparr>;
                  publishId = ''publish:'' @ name tp @ '':'' @ show_nat (idCounter w2);
                  call = JObj [(''op'', JStr ''publish''), (''id'', JStr publishId),
                               (''topic'', JStr (name tp)), (''msg'', message)]
              in callOnConnection call w2))
      else (Some TypeError, w0))"

section \<open>Services and parameters\<close>

record service =
  service_name :: string
  serviceType :: json

definition callService :: "service \<Rightarrow> json \<Rightarrow> callback \<Rightarrow> cmd" where
  "callService srv request callback w0 =
     (let w1 = w0\<lparr>idCounter := js_incr (idCounter w0)\<rparr>;
          serviceCallId = ''call_service:'' @ service_name srv @ '':'' @ show_nat (idCounter w1);
          w2 = ros_once serviceCallId (ServiceListener callback) w1
      in case Object_keys request of
           Inl e \<Rightarrow> (Some e, w2)
         | Inr names \<Rightarrow>
             (let requestValues = map (get_own request) names;
                  call = JObj [(''op'', JStr ''call_service''), (''id'', JStr serviceCallId),
                               (''service'', JStr (service_name srv)),
                               (''args'', JArr requestValues)]
              in callOnConnection call w2))"

definition getTopics :: "callback \<Rightarrow> cmd" where
  "getTopics callback =
     callService \<lparr>service_name = ''/rosapi/topics'', serviceType = JStr ''rosapi/Topics''\<rparr>
       (ServiceRequest JUndefined) (ResultFieldCallback ''topics'' callback)"

definition getServices :: "callback \<Rightarrow> cmd" where
  "getServices callback =
     callService \<lparr>service_name = ''/rosapi/services'', serviceType = JStr ''rosapi/Services''\<rparr>
       (ServiceRequest JUndefined) (ResultFieldCallback ''services'' callback)"

definition getParams :: "callback \<Rightarrow> cmd" where
  "getParams callback =
     callService
       \<lparr>service_name = ''/rosapi/get_param_names'', serviceType = JStr ''rosapi/GetParamNames''\<rparr>
       (ServiceRequest JUndefined) (ResultFieldCallback ''names'' callback)"



section \<open>The action client\<close>


definition plain_topic :: "string \<Rightarrow> string \<Rightarrow> topic_options" where
  "plain_topic nm ty =
     \<lparr>opt_node = JUndefined, opt_name = nm, opt_messageType = JStr ty,
      opt_compression = None, opt_throttle_rate = None\<rparr>"


text \<open>\<^verbatim>\<open>actionClient.cancel()\<close>.\<close>

definition client_cancel :: "nat \<Rightarrow> cmd" where
  "client_cancel a w =
     (if a < length (clients w) then
        (case cancelTopic (clients w ! a) of
           None \<Rightarrow> (Some TypeError, w)
         | Some ct \<Rightarrow> publish ct (Message (JObj [])) w)
      else (Some TypeError, w))"

text \<open>
  \<^verbatim>\<open>new actionClient.Goal(goalMsg)\<close>. The identifier of the goal is made of
  \<^verbatim>\<open>Math.random()\<close> and of the time: \<open>rnd\<close> is the text of the random number and
  \<open>now\<close> the time in milliseconds, both given by the host.
\<close>

definition new_Goal :: "nat \<Rightarrow> json \<Rightarrow> string \<Rightarrow> nat \<Rightarrow> world \<Rightarrow> (exn + nat) \<times> world" where
  "new_Goal a goalMsg rnd now w0 =
     (if a < length (clients w0) then
        (let g = length (goal_objects w0);
             gid = ''goal_'' @ rnd @ ''_'' @ show_nat now;
             msg = Message (JObj
                     [(''goal_id'', JObj [(''stamp'', JObj [(''secs'', JNum 0), (''nsecs'', JNum 0)]),
                                          (''id'', JStr gid)]),
                      (''goal'', goalMsg)]);
             w1 = w0\<lparr>goal_objects := goal_objects w0 @
                    [\<lparr>isFinished = False, status = JUndefined, result = JUndefined,
                      feedback = JUndefined, goalId = gid, goalMessage = msg,
                      goal_events = [], goal_client = a\<rparr>]\<rparr>;
             w2 = goal_on g ''status'' (GoalStatusHandler g) w1;
             w3 = goal_on g ''result'' (GoalResultHandler g) w2;
             w4 = goal_on g ''feedback'' (GoalFeedbackHandler g) w3;
             w5 = upd_client a (\<lambda>x. x\<lparr>goals := AList.update gid g (goals x)\<rparr>) w4
         in (Inr g, w5))
      else (Inl TypeError, w0))"


definition goal_cancel :: "nat \<Rightarrow> cmd" where
  "goal_cancel g w =
     (if g < length (goal_objects w) \<and> goal_client (goal_objects w ! g) < length (clients w)
      then
        (case cancelTopic (clients w ! goal_client (goal_objects w ! g)) of
           None \<Rightarrow> (Some TypeError, w)
         | Some ct \<Rightarrow>
             publish ct (Message (JObj [(''id'', JStr (goalId (goal_objects w ! g)))])) w)
      else (Some TypeError, w))"



section \<open>Sequences of operations\<close>

text \<open>The operations of the application that generate a call identifier. The
  application goes on after an operation that threw.\<close>

datatype op =
    Subscribe nat callback
  | Unsubscribe nat
  | Advertise nat
  | Unadvertise nat
  | Publish nat json
  | CallService service json callback

fun run_op :: "op \<Rightarrow> cmd" where
  "run_op (Subscribe t callback) = subscribe t callback"
| "run_op (Unsubscribe t) = unsubscribe t"
| "run_op (Advertise t) = advertise t"
| "run_op (Unadvertise t) = unadvertise t"
| "run_op (Publish t message) = publish t message"
| "run_op (CallService srv request callback) = callService srv request callback"

fun run_ops :: "op list \<Rightarrow> world \<Rightarrow> world" where
  "run_ops [] w = w"
| "run_ops (x # xs) w = run_ops xs (snd (run_op x w))"

text \<open>The identifiers of the envelopes passed to \<^verbatim>\<open>callOnConnection\<close> so far.\<close>

definition call_ids :: "world \<Rightarrow> json list" where
  "call_ids w = map (\<lambda>call. get_own call ''id'') (handed w)"

text \<open>The calls of the application's functions among the observations.\<close>

fun called :: "obs list \<Rightarrow> (nat \<times> json) list" where
  "called [] = []"
| "called (Called k v # xs) = (k, v) # called xs"
| "called (Emitted e k v # xs) = called xs"

text \<open>The frames waiting for the connection to open, oldest first.\<close>

fun deferred :: "ros_listener entry list \<Rightarrow> json list" where
  "deferred [] = []"
| "deferred (e # es) =
     (case handler e of
        DeferredSend m \<Rightarrow> (if event e = ''connection'' then [m] else []) @ deferred es
      | _ \<Rightarrow> deferred es)"



text \<open>The two registrations of one call of \<^verbatim>\<open>topic.subscribe\<close>: the handler on the topic's
  own \<^verbatim>\<open>message\<close> event, and the listener on the connection under the topic's name.\<close>

definition local_entry :: "callback \<Rightarrow> topic_listener entry" where
  "local_entry cb = \<lparr>event = ''message'', once = False, handler = TopicLocal cb\<rparr>"

definition relay_entry :: "string \<Rightarrow> nat \<Rightarrow> ros_listener entry" where
  "relay_entry nm t = \<lparr>event = nm, once = False, handler = TopicRelay t\<rparr>"

subsection \<open>Goals as their constructor wires them\<close>

text \<open>
  The three handlers that \<^verbatim>\<open>new actionClient.Goal\<close> registers on the goal itself, as
  entries of its emitter.
\<close>

definition own_status :: "nat \<Rightarrow> goal_listener entry" where
  "own_status g = \<lparr>event = ''status'', once = False, handler = GoalStatusHandler g\<rparr>"

definition own_result :: "nat \<Rightarrow> goal_listener entry" where
  "own_result g = \<lparr>event = ''result'', once = False, handler = GoalResultHandler g\<rparr>"

definition own_feedback :: "nat \<Rightarrow> goal_listener entry" where
  "own_feedback g = \<lparr>event = ''feedback'', once = False, handler = GoalFeedbackHandler g\<rparr>"

text \<open>The listeners of the application on a goal, and their identifiers.\<close>

fun app_id :: "goal_listener entry \<Rightarrow> nat option" where
  "app_id e = (case handler e of GoalAppListener k \<Rightarrow> Some k | _ \<Rightarrow> None)"

definition is_app :: "goal_listener entry \<Rightarrow> bool" where
  "is_app e \<longleftrightarrow> app_id e \<noteq> None"

text \<open>
  A goal as \<^verbatim>\<open>new actionClient.Goal\<close> leaves it and as the application can change it
  with \<^verbatim>\<open>goal.on\<close>: its own three handlers come first, and every later listener is one
  of the application.
\<close>

definition goal_wired :: "world \<Rightarrow> nat \<Rightarrow> bool" where
  "goal_wired w g \<longleftrightarrow>
     g < length (goal_objects w)
     \<and> take 3 (goal_events (goal_objects w ! g)) = [own_status g, own_result g, own_feedback g]
     \<and> list_all is_app (drop 3 (goal_events (goal_objects w ! g)))"

text \<open>
  What a run of listeners of the application leaves of the listeners of an emitter (the
  ones registered with \<^verbatim>\<open>once\<close> are removed), and the calls it makes.
\<close>

definition after_apps :: "'f entry list \<Rightarrow> 'f entry list \<Rightarrow> 'f entry list" where
  "after_apps es evs = fold (\<lambda>e evs. if once e then remove1 e evs else evs) es evs"

definition app_calls :: "json \<Rightarrow> goal_listener entry list \<Rightarrow> obs list" where
  "app_calls arg es = map (\<lambda>e. Called (the (app_id e)) arg) es"

text \<open>The state after an event of a wired goal: what the goal's own handler does to the
  goal, then the listeners of the application.\<close>

definition emitted_on :: "nat \<Rightarrow> string \<Rightarrow> json \<Rightarrow> (goal \<Rightarrow> goal) \<Rightarrow> world \<Rightarrow> world" where
  "emitted_on g k arg own w =
     (let apps = listeners_for k (drop 3 (goal_events (goal_objects w ! g)))
      in w\<lparr>goal_objects := (goal_objects w)[g := (own (goal_objects w ! g))
               \<lparr>goal_events := after_apps apps (goal_events (goal_objects w ! g))\<rparr>],
           trace := trace w @ Emitted (Goal g) k arg # app_calls arg apps\<rparr>)"



text \<open>A client all of whose goals are wired.\<close>

definition table_wired :: "nat \<Rightarrow> world \<Rightarrow> bool" where
  "table_wired a w \<longleftrightarrow>
     a < length (clients w)
     \<and> list_all (\<lambda>p. goal_wired w (snd p)) (goals (clients w ! a))"

section \<open>Properties of the library\<close>

subsection \<open>Construction of a topic\<close>

lemma show_int_minus_5: "show_int (- 5) = ''-5''"
  by code_simp

text \<open>
  Claim C9. A topic constructed with \<^verbatim>\<open>throttle_rate = -5\<close> (and any other options, on
  any state) has the throttle rate 0, and the constructor emits the warning
  \<^verbatim>\<open>-5 is not allowed. Set to 0\<close>; a topic constructed with
  \<^verbatim>\<open>compression = 'gzip'\<close> keeps the compression \<^verbatim>\<open>gzip\<close>, and the constructor
  emits the warning that gzip is not supported. In both cases the constructor returns the
  new object: nothing is rejected and no exception is raised (\<open>new_Topic\<close> has no
  exceptional result).
\<close>

theorem topic_negative_throttle_and_unknown_compression:
  fixes P options w
  defines "bad_rate \<equiv> new_Topic P (options\<lparr>opt_throttle_rate := Some (- 5)\<rparr>) w"
    and "gzip \<equiv> new_Topic P (options\<lparr>opt_compression := Some ''gzip''\<rparr>) w"
  shows "fst bad_rate = length (topics w)
       \<and> length (topics (snd bad_rate)) = Suc (length (topics w))
       \<and> throttle_rate (topics (snd bad_rate) ! fst bad_rate) = 0
       \<and> Emitted (Topic (fst bad_rate)) ''warning'' (JStr ''-5 is not allowed. Set to 0'')
           \<in> set (trace (snd bad_rate))
       \<and> fst gzip = length (topics w)
       \<and> length (topics (snd gzip)) = Suc (length (topics w))
       \<and> compression (topics (snd gzip) ! fst gzip) = ''gzip''
       \<and> Emitted (Topic (fst gzip)) ''warning''
            (JStr ''gzip compression is not supported. No comression will be used.'')
           \<in> set (trace (snd gzip))"
  unfolding bad_rate_def gzip_def
  by (simp add: new_Topic_def Let_def topic_emit_def listeners_for_def observe_def upd_topic_def
        nth_append show_int_minus_5 split: option.split)

subsection \<open>Sending\<close>

lemma callOnConnection_no_socket:
  "socket w = None \<Longrightarrow> callOnConnection m w = (Some TypeError, w\<lparr>handed := handed w @ [m]\<rparr>)"
  by (simp add: callOnConnection_def Let_def)

lemma callOnConnection_open:
  "socket w = Some s \<Longrightarrow> readyState s = OPEN \<Longrightarrow>
   callOnConnection m w =
     (None, w\<lparr>handed := handed w @ [m], wire := wire w @ [js_to_string (JSON_stringify m)]\<rparr>)"
  by (simp add: callOnConnection_def Let_def socket_send_def)

lemma callOnConnection_not_open:
  "socket w = Some s \<Longrightarrow> readyState s \<noteq> OPEN \<Longrightarrow>
   callOnConnection m w =
     (None, w\<lparr>handed := handed w @ [m],
              ros_events := ros_events w @
                [\<lparr>event = ''connection'', once = True, handler = DeferredSend (JSON_stringify m)\<rparr>]\<rparr>)"
  by (simp add: callOnConnection_def Let_def ros_once_def add_listener_def)

lemma deferred_append: "deferred (xs @ ys) = deferred xs @ deferred ys"
  by (induction xs) (auto split: ros_listener.splits)

text \<open>
  Claim C4, at the input where the code departs from it. A connection made without a URL
  (\<^verbatim>\<open>new ROS()\<close>; the URL "can be specified later with connect") has no socket, which
  is a socket that is not open. There \<^verbatim>\<open>callOnConnection\<close> reads
  \<^verbatim>\<open>ros.socket.readyState\<close> of \<^verbatim>\<open>null\<close> and throws a \<^verbatim>\<open>TypeError\<close>: nothing
  is deferred and nothing is sent. So \<^verbatim>\<open>advertise\<close> on a topic of such a connection
  throws, registers no deferred send, and leaves the topic not advertised.
\<close>

theorem send_without_socket_throws:
  fixes P options message
  defines "w \<equiv> snd (new_Topic P options new_ROS)"
  shows "callOnConnection message new_ROS = (Some TypeError, new_ROS\<lparr>handed := [message]\<rparr>)
       \<and> fst (advertise 0 w) = Some TypeError
       \<and> ros_events (snd (advertise 0 w)) = []
       \<and> wire (snd (advertise 0 w)) = []
       \<and> \<not> isAdvertised (topics (snd (advertise 0 w)) ! 0)"
  unfolding w_def
  apply (simp add: callOnConnection_no_socket new_ROS_def)
  apply (simp add: new_Topic_def Let_def topic_emit_def listeners_for_def observe_def upd_topic_def
        advertise_def callOnConnection_no_socket  split: option.split)
  done

text \<open>
  Claim C5. On a connection that has a socket, \<^verbatim>\<open>publish(message)\<close> on a topic that is
  not advertised passes to \<^verbatim>\<open>callOnConnection\<close> exactly the advertise envelope and
  then the publish envelope, and the topic is advertised afterwards; on a topic that is
  advertised it passes the publish envelope only. The envelopes are written to the socket
  in that order when it is open, and are deferred in that order otherwise.
\<close>

theorem publish_advertises_first:
  fixes t message w s
  defines "tp \<equiv> topics w ! t"
    and "c1 \<equiv> js_incr (idCounter w)"
  defines "c2 \<equiv> js_incr c1"
  defines "adv \<equiv> JObj [(''op'', JStr ''advertise''),
                        (''id'', JStr (''advertise:'' @ name tp @ '':'' @ show_nat c1)),
                        (''type'', messageType tp), (''topic'', JStr (name tp))]"
    and "pub \<equiv> (\<lambda>c. JObj [(''op'', JStr ''publish''),
                        (''id'', JStr (''publish:'' @ name tp @ '':'' @ show_nat c)),
                        (''topic'', JStr (name tp)), (''msg'', message)])"
  defines "sent \<equiv> (if isAdvertised tp then [pub c1] else [adv, pub c2])"
  assumes t: "t < length (topics w)" and s: "socket w = Some s"
  shows "\<exists>w'. publish t message w = (None, w')
            \<and> handed w' = handed w @ sent
            \<and> isAdvertised (topics w' ! t)
            \<and> (if readyState s = OPEN
               then wire w' = wire w @ map (\<lambda>m. js_to_string (JSON_stringify m)) sent
                  \<and> deferred (ros_events w') = deferred (ros_events w)
               else wire w' = wire w
                  \<and> deferred (ros_events w') = deferred (ros_events w) @ map JSON_stringify sent)"
proof (cases "readyState s = OPEN")
  case True
  show ?thesis
    using t s True unfolding sent_def pub_def adv_def c2_def c1_def tp_def
    by (simp add: publish_def advertise_def Let_def callOnConnection_open upd_topic_def)
next
  case False
  show ?thesis
    using t s False unfolding sent_def pub_def adv_def c2_def c1_def tp_def
    by (simp add: publish_def advertise_def Let_def callOnConnection_not_open upd_topic_def
          deferred_append)
qed

lemma show_nat_1: "show_nat (Suc 0) = ''1''"
  by code_simp

lemma show_nat_2: "show_nat 2 = ''2''"
  by code_simp

lemma js_incr_0: "js_incr 0 = 1"
  by (simp add: js_incr_def)

lemma js_incr_1: "js_incr (Suc 0) = 2"
  by (simp add: js_incr_def)

theorem publish_advertises_first_witness:
  "let w = snd (new_Topic (\<lambda>s. None) (plain_topic ''/cmd_vel'' ''geometry_msgs/Twist'')
                  (connect ''ws://localhost:9090'' new_ROS));
       adv = JObj [(''op'', JStr ''advertise''), (''id'', JStr ''advertise:/cmd_vel:1''),
                   (''type'', JStr ''geometry_msgs/Twist''), (''topic'', JStr ''/cmd_vel'')];
       pub = JObj [(''op'', JStr ''publish''), (''id'', JStr ''publish:/cmd_vel:2''),
                   (''topic'', JStr ''/cmd_vel''), (''msg'', JObj [(''data'', JNum 1)])]
   in 0 < length (topics w)
    \<and> socket w = Some \<lparr>url = ''ws://localhost:9090'', readyState = CONNECTING\<rparr>
    \<and> (\<exists>w'. publish 0 (JObj [(''data'', JNum 1)]) w = (None, w')
            \<and> handed w' = [adv, pub]
            \<and> isAdvertised (topics w' ! 0)
            \<and> wire w' = []
            \<and> deferred (ros_events w') = [JSON_stringify adv, JSON_stringify pub])"
  using publish_advertises_first
    [of 0 "snd (new_Topic (\<lambda>s. None) (plain_topic ''/cmd_vel'' ''geometry_msgs/Twist'')
                  (connect ''ws://localhost:9090'' new_ROS))"
        "\<lparr>url = ''ws://localhost:9090'', readyState = CONNECTING\<rparr>" "JObj [(''data'', JNum 1)]"]
  by (simp add: new_Topic_def plain_topic_def connect_def new_ROS_def Let_def
        show_nat_1 show_nat_2 js_incr_0 js_incr_1)

subsection \<open>Frames that are not JSON\<close>






subsection \<open>Service calls\<close>

lemma for_each_preserves:
  assumes "\<And>x v. x \<in> set xs \<Longrightarrow> Q (snd (f x v)) = Q v"
  shows "Q (snd (for_each f xs w)) = Q w"
  using assms
proof (induction xs arbitrary: w)
  case Nil
  show ?case by simp
next
  case (Cons x xs)
  obtain r w' where 1: "f x w = (r, w')" by (cases "f x w")
  have 2: "Q w' = Q w" using Cons.prems [of x w] 1 by simp
  show ?case
  proof (cases r)
    case None
    have "Q (snd (for_each f xs w')) = Q w'"
      by (rule Cons.IH) (simp add: Cons.prems)
    with 1 2 None show ?thesis by simp
  next
    case (Some e)
    with 1 2 show ?thesis by simp
  qed
qed

lemma run_goal_listener_ros_events [simp]:
  "ros_events (snd (run_goal_listener f arg w)) = ros_events w"
  by (cases f) (simp_all add: run_goal_listener_def upd_goal_def observe_def)

lemma goal_emit_ros_events [simp]: "ros_events (snd (goal_emit g k arg w)) = ros_events w"
proof -
  have "\<And>e v. ros_events (snd (fire_goal g arg e v)) = ros_events v"
    by (simp add: fire_goal_def upd_goal_def)
  then have "\<And>xs v. ros_events (snd (for_each (fire_goal g arg) xs v)) = ros_events v"
    by (rule for_each_preserves)
  then show ?thesis by (simp add: goal_emit_def observe_def)
qed

lemma with_prop_preserves:
  assumes "\<And>x v. Q (snd (f x v)) = Q v"
  shows "Q (snd (with_prop j k f w)) = Q w"
  using assms by (simp add: with_prop_def split: sum.splits)

lemma status_entry_ros_events [simp]: "ros_events (snd (status_entry a st w)) = ros_events w"
  unfolding status_entry_def
  by (intro with_prop_preserves) (simp split: option.splits)

lemma status_callback_ros_events [simp]:
  "ros_events (snd (status_callback a m w)) = ros_events w"
proof -
  have 1: "\<And>xs v. ros_events (snd (for_each (status_entry a) xs v)) = ros_events v"
    by (rule for_each_preserves) simp
  have 2: "\<And>v. ros_events (snd (with_prop m ''status_list'' (\<lambda>l w.
              (case l of JArr xs \<Rightarrow> for_each (status_entry a) xs w | _ \<Rightarrow> (Some TypeError, w))) v))
            = ros_events v"
    by (rule with_prop_preserves) (simp add: 1 split: json.splits)
  show ?thesis
    by (simp add: status_callback_def Let_def 2 upd_client_def)
qed

lemma emit_pair_ros_events:
  "ros_events (snd (case goal_emit g k st w of (Some e, w') \<Rightarrow> (Some e, w')
       | (None, w') \<Rightarrow> with_prop m f (goal_emit g k') w')) = ros_events w"
proof -
  obtain r w' where 1: "goal_emit g k st w = (r, w')" by (cases "goal_emit g k st w")
  have 2: "ros_events w' = ros_events w" using goal_emit_ros_events [of g k st w] 1 by simp
  have 3: "ros_events (snd (with_prop m f (goal_emit g k') w')) = ros_events w'"
    by (rule with_prop_preserves) simp
  show ?thesis using 1 2 3 by (cases r) simp_all
qed

lemma feedback_callback_ros_events [simp]:
  "ros_events (snd (feedback_callback a m w)) = ros_events w"
  unfolding feedback_callback_def
  by (auto intro!: with_prop_preserves simp: emit_pair_ros_events split: option.splits)

lemma result_callback_ros_events [simp]:
  "ros_events (snd (result_callback a m w)) = ros_events w"
  unfolding result_callback_def
  by (auto intro!: with_prop_preserves simp: emit_pair_ros_events split: option.splits)

lemma invoke_ros_events [simp]: "ros_events (snd (invoke P cb v w)) = ros_events w"
  by (induction P cb v w rule: invoke.induct)
     (simp_all add: observe_def split: sum.splits option.splits)








lemma listeners_for_append:
  "listeners_for k (xs @ ys) = listeners_for k xs @ listeners_for k ys"
  by (simp add: listeners_for_def)












subsection \<open>Parameters\<close>












subsection \<open>Call identifiers\<close>










lemma topics_callOnConnection [simp]:
  "topics (snd (callOnConnection m w)) = topics w"
  by (simp add: callOnConnection_def Let_def socket_send_def ros_once_def
        split: option.splits ready_state.splits)


lemma js_incr_below: "int (js_incr n) < 9007199254740992 \<Longrightarrow> js_incr n = Suc n"
  by (simp add: js_incr_def split: if_splits)






lemma handed_then_upd_topic [simp]:
  "handed (snd (case c of (None, w2) \<Rightarrow> (None, upd_topic t g w2)
                         | (Some e, w2) \<Rightarrow> (Some e, w2))) = handed (snd c)"
  by (cases c) (auto simp: upd_topic_def split: option.splits)

lemma idCounter_then_upd_topic [simp]:
  "idCounter (snd (case c of (None, w2) \<Rightarrow> (None, upd_topic t g w2)
                            | (Some e, w2) \<Rightarrow> (Some e, w2))) = idCounter (snd c)"
  by (cases c) (auto simp: upd_topic_def split: option.splits)






lemma topics_then_upd_topic:
  "length (topics (snd (case c of (None, w2) \<Rightarrow> (None, upd_topic t g w2)
                            | (Some e, w2) \<Rightarrow> (Some e, w2)))) = length (topics (snd c))"
  by (cases c) (auto simp: upd_topic_def split: option.splits)

lemma length_topics_advertise [simp]: "length (topics (snd (advertise t w))) = length (topics w)"
  by (simp add: advertise_def Let_def topics_then_upd_topic)

lemma name_topics_advertise [simp]:
  "name (topics (snd (advertise t w)) ! t) = name (topics w ! t)"
proof (cases "t < length (topics w)")
  case False
  then show ?thesis by (simp add: advertise_def)
next
  case True
  define call where "call = JObj [(''op'', JStr ''advertise''),
      (''id'', JStr (''advertise:'' @ name (topics w ! t) @ '':'' @ show_nat (js_incr (idCounter w)))),
      (''type'', messageType (topics w ! t)), (''topic'', JStr (name (topics w ! t)))]"
  obtain r w2 where c: "callOnConnection call (w\<lparr>idCounter := js_incr (idCounter w)\<rparr>) = (r, w2)"
    by (cases "callOnConnection call (w\<lparr>idCounter := js_incr (idCounter w)\<rparr>)")
  have "topics w2 = topics w"
    using topics_callOnConnection [of call "w\<lparr>idCounter := js_incr (idCounter w)\<rparr>"] c by simp
  with True c show ?thesis
    by (cases r) (simp_all add: advertise_def Let_def call_def upd_topic_def)
qed














lemma show_nat_small:
  "show_nat (Suc (Suc 0)) = ''2''"
  "show_nat (Suc (Suc (Suc 0))) = ''3''"
  "show_nat (Suc (Suc (Suc (Suc 0)))) = ''4''"
  "show_nat (Suc (Suc (Suc (Suc (Suc 0))))) = ''5''"
  "show_nat (Suc (Suc (Suc (Suc (Suc (Suc 0)))))) = ''6''"
  by code_simp+



subsection \<open>Subscriptions\<close>

lemma subscribe_effect:
  fixes t w cb
  assumes t: "t < length (topics w)"
  defines "w1 \<equiv> snd (subscribe t cb w)"
  shows "topics w1 = (topics w)[t := (topics w ! t)
            \<lparr>topic_events := topic_events (topics w ! t) @ [local_entry cb]\<rparr>]"
    and "k \<noteq> ''connection'' \<Longrightarrow> listeners_for k (ros_events w1) =
           listeners_for k (ros_events w) @
             (if k = name (topics w ! t) then [relay_entry k t] else [])"
    and "trace w1 = trace w"
    and "clients w1 = clients w"
    and "goal_objects w1 = goal_objects w"
proof -
  show "topics w1 = (topics w)[t := (topics w ! t)
            \<lparr>topic_events := topic_events (topics w ! t) @ [local_entry cb]\<rparr>]"
    using t unfolding w1_def
    by (simp add: subscribe_def Let_def topic_on_def upd_topic_def ros_on_def add_listener_def
          local_entry_def)
  show "k \<noteq> ''connection'' \<Longrightarrow> listeners_for k (ros_events w1) =
           listeners_for k (ros_events w) @
             (if k = name (topics w ! t) then [relay_entry k t] else [])"
    using t unfolding w1_def
    by (auto simp add: subscribe_def Let_def topic_on_def upd_topic_def ros_on_def add_listener_def
          relay_entry_def callOnConnection_def socket_send_def ros_once_def listeners_for_def
          split: option.splits ready_state.splits)
  show "trace w1 = trace w"
    using t unfolding w1_def
    by (auto simp add: subscribe_def Let_def topic_on_def upd_topic_def ros_on_def add_listener_def
          callOnConnection_def socket_send_def ros_once_def
          split: option.splits ready_state.splits)
  show "clients w1 = clients w"
    using t unfolding w1_def
    by (auto simp add: subscribe_def Let_def topic_on_def upd_topic_def ros_on_def add_listener_def
          callOnConnection_def socket_send_def ros_once_def
          split: option.splits ready_state.splits)
  show "goal_objects w1 = goal_objects w"
    using t unfolding w1_def
    by (auto simp add: subscribe_def Let_def topic_on_def upd_topic_def ros_on_def add_listener_def
          callOnConnection_def socket_send_def ros_once_def
          split: option.splits ready_state.splits)
qed

lemma subscribe_many:
  fixes t w cbs nm
  assumes "t < length (topics w)" and "nm = name (topics w ! t)" and "nm \<noteq> ''connection''"
  defines "w' \<equiv> run_ops (map (\<lambda>cb. Subscribe t cb) cbs) w"
  shows "topics w' = (topics w)[t := (topics w ! t)
            \<lparr>topic_events := topic_events (topics w ! t) @ map local_entry cbs\<rparr>]
       \<and> listeners_for nm (ros_events w') =
           listeners_for nm (ros_events w) @ replicate (length cbs) (relay_entry nm t)
       \<and> trace w' = trace w"
  using assms(1,2,3) unfolding w'_def
proof (induction cbs arbitrary: w)
  case Nil
  then show ?case by (simp add: list_update_same_conv)
next
  case (Cons cb cbs)
  let ?w1 = "snd (subscribe t cb w)"
  note e = subscribe_effect [OF Cons.prems(1), where cb = cb]
  have t1: "t < length (topics ?w1)" using Cons.prems(1) by (simp add: e(1))
  have n1: "nm = name (topics ?w1 ! t)" using Cons.prems(1,2) by (simp add: e(1))
  from Cons.IH [OF t1 n1 Cons.prems(3)] Cons.prems
  show ?case
    by (simp add: e(1) e(2) e(3) replicate_append_same)
qed


lemma locals_fire:
  "for_each (fire_topic P t M) (map (\<lambda>k. local_entry (AppCallback k)) ks) u
     = (None, u\<lparr>trace := trace u @ map (\<lambda>k. Called k M) ks\<rparr>)"
proof (induction ks arbitrary: u)
  case Nil
  show ?case by simp
next
  case (Cons k ks)
  have "fire_topic P t M (local_entry (AppCallback k)) u = (None, observe (Called k M) u)"
    by (simp add: fire_topic_def local_entry_def run_topic_listener_def)
  then show ?case
    by (simp add: Cons.IH observe_def)
qed

lemma topic_emit_locals:
  assumes "t < length (topics u)"
    and "listeners_for ''message'' (topic_events (topics u ! t))
           = map (\<lambda>k. local_entry (AppCallback k)) ks"
  shows "topic_emit P t ''message'' M u
     = (None, u\<lparr>trace := trace u @ Emitted (Topic t) ''message'' M # map (\<lambda>k. Called k M) ks\<rparr>)"
  using assms by (simp add: topic_emit_def locals_fire observe_def)

lemma relays_fire:
  assumes "t < length (topics u)"
    and "listeners_for ''message'' (topic_events (topics u ! t))
           = map (\<lambda>k. local_entry (AppCallback k)) ks"
  shows "for_each (fire_ros P msg) (replicate n (relay_entry nm t)) u
     = (None, u\<lparr>trace := trace u @
          concat (replicate n (Emitted (Topic t) ''message'' (Message msg)
                                # map (\<lambda>k. Called k (Message msg)) ks))\<rparr>)"
  using assms
proof (induction n arbitrary: u)
  case 0
  show ?case by simp
next
  case (Suc n)
  let ?u1 = "u\<lparr>trace := trace u @ Emitted (Topic t) ''message'' (Message msg)
                 # map (\<lambda>k. Called k (Message msg)) ks\<rparr>"
  have f: "fire_ros P msg (relay_entry nm t) u = (None, ?u1)"
    using topic_emit_locals [OF Suc.prems, of P "Message msg"]
    by (simp add: fire_ros_def relay_entry_def run_ros_listener_def)
  have "for_each (fire_ros P msg) (replicate n (relay_entry nm t)) ?u1
     = (None, ?u1\<lparr>trace := trace ?u1 @
          concat (replicate n (Emitted (Topic t) ''message'' (Message msg)
                                # map (\<lambda>k. Called k (Message msg)) ks))\<rparr>)"
    by (rule Suc.IH) (use Suc.prems in simp_all)
  with f show ?case by simp
qed

lemma called_append: "called (xs @ ys) = called xs @ called ys"
  by (induction xs rule: called.induct) simp_all

lemma called_Called: "called (map (\<lambda>k. Called k M) ks) = map (\<lambda>k. (k, M)) ks"
  by (induction ks) simp_all

lemma called_rounds:
  "called (concat (replicate n (Emitted e k M # map (\<lambda>k. Called k M) ks)))
     = concat (replicate n (map (\<lambda>k. (k, M)) ks))"
  by (induction n) (simp_all add: called_append called_Called)

lemma count_list_append: "count_list (xs @ ys) x = count_list xs x + count_list ys x"
  by (induction xs) simp_all

lemma count_list_rounds: "count_list (concat (replicate n xs)) x = n * count_list xs x"
  by (induction n) (simp_all add: count_list_append)

lemma count_list_pairs: "count_list (map (\<lambda>k. (k, M)) ks) (k, M) = count_list ks k"
  by (induction ks) simp_all

lemma listeners_for_locals:
  "listeners_for ''message'' (map (\<lambda>x. local_entry (f x)) xs) = map (\<lambda>x. local_entry (f x)) xs"
  by (induction xs) (simp_all add: listeners_for_def local_entry_def)

text \<open>
  Claim C10. Take a topic with no handler on its \<^verbatim>\<open>message\<close> event, whose name has no
  listener on the connection (and is not \<^verbatim>\<open>connection\<close>, the key of the deferred
  sends). After \<open>n\<close> calls of \<^verbatim>\<open>subscribe\<close> on it, with the callbacks \<open>ks\<close> of the
  application, one inbound publish envelope for the name of the topic runs \<open>n\<close> rounds,
  one for each listener on the connection, and each round calls every callback once, in
  the order of subscription: \<open>n * n\<close> calls in all, \<open>n\<close> of them for each subscription
  (a callback subscribed several times counts once for each).
\<close>

theorem every_callback_runs_n_times:
  fixes P t w ks msg
  defines "nm \<equiv> name (topics w ! t)"
    and "w' \<equiv> run_ops (map (\<lambda>k. Subscribe t (AppCallback k)) ks) w"
    and "M \<equiv> Message msg"
    and "n \<equiv> length ks"
  defines "pub \<equiv> JObj [(''op'', JStr ''publish''), (''topic'', JStr nm), (''msg'', msg)]"
  assumes t: "t < length (topics w)"
    and no_relay: "listeners_for nm (ros_events w) = []"
    and no_local: "listeners_for ''message'' (topic_events (topics w ! t)) = []"
    and nm: "nm \<noteq> ''connection''"
  shows "handleMessage P pub w' =
           (None, w'\<lparr>trace := trace w' @ Emitted Ros nm msg #
              concat (replicate n (Emitted (Topic t) ''message'' M # map (\<lambda>k. Called k M) ks))\<rparr>)
       \<and> called (trace (snd (handleMessage P pub w'))) =
           called (trace w) @ concat (replicate n (map (\<lambda>k. (k, M)) ks))
       \<and> length (concat (replicate n (map (\<lambda>k. (k, M)) ks))) = n * n
       \<and> (\<forall>k. count_list (concat (replicate n (map (\<lambda>k. (k, M)) ks))) (k, M)
               = n * count_list ks k)"
proof -
  have w'2: "w' = run_ops (map (\<lambda>cb. Subscribe t cb) (map AppCallback ks)) w"
    by (simp add: w'_def comp_def)
  note sm = subscribe_many [OF t nm_def [THEN meta_eq_to_obj_eq] nm, of "map AppCallback ks",
      folded w'2]
  have tw: "t < length (topics w')" using sm t by simp
  have lw: "listeners_for ''message'' (topic_events (topics w' ! t))
              = map (\<lambda>k. local_entry (AppCallback k)) ks"
    using sm t no_local by (simp add: listeners_for_append listeners_for_locals comp_def)
  have rw: "listeners_for nm (ros_events w') = replicate n (relay_entry nm t)"
    using sm no_relay by (simp add: n_def)
  have tr: "trace w' = trace w" using sm by simp
  have d: "handleMessage P pub w' = ros_emit P nm msg w'"
    by (simp add: handleMessage_def pub_def with_prop_def get_prop_def)
  have "ros_emit P nm msg w' =
      for_each (fire_ros P msg) (replicate n (relay_entry nm t)) (observe (Emitted Ros nm msg) w')"
    by (simp add: ros_emit_def rw)
  also have "\<dots> = (None, (observe (Emitted Ros nm msg) w')
        \<lparr>trace := trace (observe (Emitted Ros nm msg) w') @
          concat (replicate n (Emitted (Topic t) ''message'' (Message msg)
                                # map (\<lambda>k. Called k (Message msg)) ks))\<rparr>)"
    by (rule relays_fire) (use tw lw in \<open>simp_all add: observe_def\<close>)
  finally have 1: "handleMessage P pub w' =
           (None, w'\<lparr>trace := trace w' @ Emitted Ros nm msg #
              concat (replicate n (Emitted (Topic t) ''message'' M # map (\<lambda>k. Called k M) ks))\<rparr>)"
    by (simp add: d observe_def M_def)
  have 2: "called (trace (snd (handleMessage P pub w'))) =
           called (trace w) @ concat (replicate n (map (\<lambda>k. (k, M)) ks))"
    by (simp add: 1 tr called_append called_rounds)
  have 3: "length (concat (replicate n (map (\<lambda>k. (k, M)) ks))) = n * n"
    by (simp add: length_concat n_def sum_list_replicate)
  have 4: "\<forall>k. count_list (concat (replicate n (map (\<lambda>k. (k, M)) ks))) (k, M)
               = n * count_list ks k"
    by (simp add: count_list_rounds count_list_pairs)
  from 1 2 3 4 show ?thesis by blast
qed


lemma Message_data_hi:
  "Message (JObj [(''data'', JStr ''hi'')]) = JObj [(''data'', JStr ''hi'')]"
  by code_simp

theorem every_callback_runs_n_times_witness:
  "let P = (\<lambda>s. None);
       w = snd (new_Topic P (plain_topic ''/chatter'' ''std_msgs/String'')
                  (connect ''ws://localhost:9090'' new_ROS));
       w' = run_ops [Subscribe 0 (AppCallback 7), Subscribe 0 (AppCallback 8)] w;
       msg = JObj [(''data'', JStr ''hi'')];
       pub = JObj [(''op'', JStr ''publish''), (''topic'', JStr ''/chatter''), (''msg'', msg)]
   in 0 < length (topics w)
    \<and> name (topics w ! 0) = ''/chatter''
    \<and> listeners_for ''/chatter'' (ros_events w) = []
    \<and> listeners_for ''message'' (topic_events (topics w ! 0)) = []
    \<and> called (trace (snd (handleMessage P pub w'))) = [(7, msg), (8, msg), (7, msg), (8, msg)]"
  using every_callback_runs_n_times
    [of 0 "snd (new_Topic (\<lambda>s. None) (plain_topic ''/chatter'' ''std_msgs/String'')
                  (connect ''ws://localhost:9090'' new_ROS))"
        "\<lambda>s. None" "JObj [(''data'', JStr ''hi'')]" "[7, 8]"]
  by (simp add: Let_def new_Topic_def plain_topic_def connect_def new_ROS_def listeners_for_def
        Message_data_hi subscribe_def callOnConnection_def ros_once_def ros_on_def topic_on_def
        add_listener_def upd_topic_def handleMessage_def with_prop_def get_prop_def ros_emit_def
        fire_ros_def run_ros_listener_def topic_emit_def fire_topic_def run_topic_listener_def
        observe_def)

text \<open>
  Claim C6, at the input where the code departs from it: \<^verbatim>\<open>subscribe(c1)\<close>,
  \<^verbatim>\<open>unsubscribe()\<close>, \<^verbatim>\<open>subscribe(c2)\<close> on a new topic, then an inbound publish.
  \<^verbatim>\<open>unsubscribe\<close> removes the listeners on the connection and sends one
  \<^verbatim>\<open>unsubscribe\<close> envelope, but the handler of \<^verbatim>\<open>c1\<close> on the topic's own
  \<^verbatim>\<open>message\<close> event stays registered. A publish right after the
  \<^verbatim>\<open>unsubscribe\<close> calls nobody; after the second \<^verbatim>\<open>subscribe\<close> it calls
  \<^verbatim>\<open>c1\<close> again, and then \<^verbatim>\<open>c2\<close>.
\<close>

theorem unsubscribe_keeps_local_handlers:
  fixes P msg
  defines "w0 \<equiv> snd (new_Topic P (plain_topic ''/chatter'' ''std_msgs/String'')
                        (connect ''ws://localhost:9090'' new_ROS))"
  defines "w1 \<equiv> snd (subscribe 0 (AppCallback 1) w0)"
  defines "w2 \<equiv> snd (unsubscribe 0 w1)"
  defines "w3 \<equiv> snd (subscribe 0 (AppCallback 2) w2)"
  defines "pub \<equiv> JObj [(''op'', JStr ''publish''), (''topic'', JStr ''/chatter''), (''msg'', msg)]"
  shows "call_ids w2 = [JStr ''subscribe:/chatter:1'', JStr ''unsubscribe:/chatter:2'']
       \<and> ros_events w2 =
           [\<lparr>event = ''connection'', once = True, handler = DeferredSend (JSON_stringify
               (JObj [(''op'', JStr ''subscribe''), (''id'', JStr ''subscribe:/chatter:1''),
                      (''type'', JStr ''std_msgs/String''), (''topic'', JStr ''/chatter''),
                      (''compression'', JStr ''none''), (''throttle_rate'', JNum 0)]))\<rparr>,
            \<lparr>event = ''connection'', once = True, handler = DeferredSend (JSON_stringify
               (JObj [(''op'', JStr ''unsubscribe''), (''id'', JStr ''unsubscribe:/chatter:2''),
                      (''topic'', JStr ''/chatter'')]))\<rparr>]
       \<and> topic_events (topics w2 ! 0)
           = [\<lparr>event = ''message'', once = False, handler = TopicLocal (AppCallback 1)\<rparr>]
       \<and> called (trace (snd (handleMessage P pub w2))) = []
       \<and> called (trace (snd (handleMessage P pub w3)))
           = [(1, Message msg), (2, Message msg)]"
  unfolding w0_def w1_def w2_def w3_def pub_def
  by (simp add: new_Topic_def plain_topic_def connect_def new_ROS_def Let_def
        subscribe_def unsubscribe_def callOnConnection_def ros_once_def ros_on_def topic_on_def
        add_listener_def upd_topic_def ros_removeAllListeners_def remove_listeners_def
        handleMessage_def with_prop_def get_prop_def ros_emit_def listeners_for_def fire_ros_def
        run_ros_listener_def topic_emit_def fire_topic_def run_topic_listener_def observe_def
        call_ids_def js_incr_def show_nat_1 show_nat_small)

subsection \<open>The action client\<close>


lemma own_not_app [simp]:
  "\<not> is_app (own_status g)" "\<not> is_app (own_result g)" "\<not> is_app (own_feedback g)"
  by (simp_all add: is_app_def own_status_def own_result_def own_feedback_def)










lemma emitted_on_fields [simp]:
  "clients (emitted_on g k arg own w) = clients w"
  "timers (emitted_on g k arg own w) = timers w"
  "length (goal_objects (emitted_on g k arg own w)) = length (goal_objects w)"
  "trace (emitted_on g k arg own w) = trace w @ Emitted (Goal g) k arg #
      app_calls arg (listeners_for k (drop 3 (goal_events (goal_objects w ! g))))"
  by (simp_all add: emitted_on_def Let_def)







lemma callOnConnection_frame [simp]:
  "timers (snd (callOnConnection m w)) = timers w"
  "goal_objects (snd (callOnConnection m w)) = goal_objects w"
  "clients (snd (callOnConnection m w)) = clients w"
  "trace (snd (callOnConnection m w)) = trace w"
  by (simp_all add: callOnConnection_def Let_def socket_send_def ros_once_def
        split: option.splits ready_state.splits)

lemma then_upd_topic_frame [simp]:
  "timers (snd (case c of (None, w2) \<Rightarrow> (None, upd_topic t g w2)
                         | (Some e, w2) \<Rightarrow> (Some e, w2))) = timers (snd c)"
  "goal_objects (snd (case c of (None, w2) \<Rightarrow> (None, upd_topic t g w2)
                         | (Some e, w2) \<Rightarrow> (Some e, w2))) = goal_objects (snd c)"
  "clients (snd (case c of (None, w2) \<Rightarrow> (None, upd_topic t g w2)
                         | (Some e, w2) \<Rightarrow> (Some e, w2))) = clients (snd c)"
  "trace (snd (case c of (None, w2) \<Rightarrow> (None, upd_topic t g w2)
                         | (Some e, w2) \<Rightarrow> (Some e, w2))) = trace (snd c)"
  by (cases c; auto simp: upd_topic_def split: option.splits)+

lemma advertise_frame [simp]:
  "timers (snd (advertise t w)) = timers w"
  "goal_objects (snd (advertise t w)) = goal_objects w"
  "clients (snd (advertise t w)) = clients w"
  "trace (snd (advertise t w)) = trace w"
  by (simp_all add: advertise_def Let_def)

lemma publish_frame [simp]:
  "timers (snd (publish t m w)) = timers w"
  "goal_objects (snd (publish t m w)) = goal_objects w"
  "clients (snd (publish t m w)) = clients w"
  "trace (snd (publish t m w)) = trace w"
proof -
  define first where
    "first = (if \<not> isAdvertised (topics w ! t) then advertise t w else (None, w))"
  obtain r w1 where f: "first = (r, w1)" by (cases first)
  have w1: "w1 = snd first" using f by simp
  have 1: "timers w1 = timers w" "goal_objects w1 = goal_objects w" "clients w1 = clients w"
      "trace w1 = trace w"
    unfolding w1 first_def by simp_all
  show "timers (snd (publish t m w)) = timers w"
    using f 1 by (cases r) (simp_all add: publish_def first_def [symmetric] Let_def)
  show "goal_objects (snd (publish t m w)) = goal_objects w"
    using f 1 by (cases r) (simp_all add: publish_def first_def [symmetric] Let_def)
  show "clients (snd (publish t m w)) = clients w"
    using f 1 by (cases r) (simp_all add: publish_def first_def [symmetric] Let_def)
  show "trace (snd (publish t m w)) = trace w"
    using f 1 by (cases r) (simp_all add: publish_def first_def [symmetric] Let_def)
qed







lemma set_update_subset: "set (AList.update k v al) \<subseteq> insert (k, v) (set al)"
  by (induction al) auto

text \<open>The constructor of a goal keeps the table wired, and enters the new goal in it
  under its identifier.\<close>

lemma new_Goal_wired:
  fixes a w goalMsg rnd now
  assumes tw: "table_wired a w"
  defines "g \<equiv> length (goal_objects w)"
    and "gid \<equiv> ''goal_'' @ rnd @ ''_'' @ show_nat now"
  shows "\<exists>w'. new_Goal a goalMsg rnd now w = (Inr g, w')
            \<and> table_wired a w' \<and> find_goal a (JStr gid) w' = Some g
            \<and> \<not> isFinished (goal_objects w' ! g)
            \<and> goalId (goal_objects w' ! g) = gid"
proof -
  have a: "a < length (clients w)" using tw by (simp add: table_wired_def)
  define G where "G = \<lparr>isFinished = False, status = JUndefined, result = JUndefined,
      feedback = JUndefined, goalId = gid,
      goalMessage = Message (JObj
         [(''goal_id'', JObj [(''stamp'', JObj [(''secs'', JNum 0), (''nsecs'', JNum 0)]),
                              (''id'', JStr gid)]),
          (''goal'', goalMsg)]),
      goal_events = [own_status g, own_result g, own_feedback g], goal_client = a\<rparr>"
  define w' where "w' = w\<lparr>goal_objects := goal_objects w @ [G],
      clients := (clients w)[a := (clients w ! a)\<lparr>goals := AList.update gid g (goals (clients w ! a))\<rparr>]\<rparr>"
  have run: "new_Goal a goalMsg rnd now w = (Inr g, w')"
    using a
    by (simp add: new_Goal_def Let_def goal_on_def upd_goal_def upd_client_def add_listener_def
          g_def gid_def G_def w'_def own_status_def own_result_def own_feedback_def)
  have gw: "goal_wired w' g"
    by (simp add: goal_wired_def w'_def g_def G_def)
  have old: "\<And>g'. goal_wired w g' \<Longrightarrow> goal_wired w' g'"
    by (simp add: goal_wired_def w'_def nth_append)
  have "\<And>p. p \<in> set (AList.update gid g (goals (clients w ! a))) \<Longrightarrow> goal_wired w' (snd p)"
  proof -
    fix p assume "p \<in> set (AList.update gid g (goals (clients w ! a)))"
    then have "p = (gid, g) \<or> p \<in> set (goals (clients w ! a))"
      using set_update_subset [of gid g "goals (clients w ! a)"] by blast
    then show "goal_wired w' (snd p)"
      using gw old tw by (auto simp: table_wired_def list_all_iff)
  qed
  then have tw': "table_wired a w'"
    using a by (simp add: table_wired_def list_all_iff w'_def)
  have f: "find_goal a (JStr gid) w' = Some g"
    using a by (simp add: find_goal_def w'_def update_conv')
  have n: "\<not> isFinished (goal_objects w' ! g)" "goalId (goal_objects w' ! g) = gid"
    by (simp_all add: w'_def g_def G_def)
  from run tw' f n show ?thesis by blast
qed





end
